theory Spec2Isabelle
  imports Main "HOL-Library.Sublist"
begin

section \<open>Python string operations used by the chat examples\<close>

text \<open>
  Strings are character lists. Two operations of Python's \<^verbatim>\<open>str\<close> are defined here:
  the substring test \<^verbatim>\<open>old in s\<close> and \<^verbatim>\<open>s.replace(old, new)\<close>. A third one,
  \<^verbatim>\<open>s.lower()\<close>, lowers every cased letter of Unicode; it is the interpreter's and a
  parameter of the functions that call it.
\<close>

fun py_in :: "string \<Rightarrow> string \<Rightarrow> bool" where
  "py_in old [] = (old = [])"
| "py_in old (c # cs) = (prefix old (c # cs) \<or> py_in old cs)"

text \<open>
  \<^verbatim>\<open>s.replace(old, new)\<close> for a non-empty \<^verbatim>\<open>old\<close>: the occurrences are found from the
  left, each search resuming after the end of the previous match, so the matches do not
  overlap and replaced text is never scanned again.
\<close>

fun replace_ne :: "string \<Rightarrow> string \<Rightarrow> string \<Rightarrow> string" where
  "replace_ne [] old new = []"
| "replace_ne (c # cs) old new =
     (if old \<noteq> [] \<and> prefix old (c # cs)
      then new @ replace_ne (drop (length old) (c # cs)) old new
      else c # replace_ne cs old new)"

text \<open>
  With an empty \<^verbatim>\<open>old\<close> Python inserts \<^verbatim>\<open>new\<close> before every character and at the end:
  \<^verbatim>\<open>"abc".replace("", "-") == "-a-b-c-"\<close>.
\<close>

definition str_replace :: "string \<Rightarrow> string \<Rightarrow> string \<Rightarrow> string" where
  "str_replace s old new =
     (if old = [] then new @ concat (map (\<lambda>c. c # new) s) else replace_ne s old new)"

text \<open>
  What \<^verbatim>\<open>s.lower()\<close> does on ASCII text: the letters A to Z are mapped to a to z, every
  other character is kept. This function stands for the parameter only where the text is
  ASCII, in the concrete inputs below.
\<close>

definition ascii_lower_char :: "char \<Rightarrow> char" where
  "ascii_lower_char c =
     (let n = (of_char c :: nat) in if 65 \<le> n \<and> n \<le> 90 then char_of (n + 32) else c)"

definition ascii_lower :: "string \<Rightarrow> string" where
  "ascii_lower s = map ascii_lower_char s"

text \<open>
  The slice \<^verbatim>\<open>xs[i:]\<close>: a negative start counts from the end and is clamped at the
  beginning of the list; a start beyond the end gives the empty list.
\<close>

definition py_slice_from :: "'a list \<Rightarrow> int \<Rightarrow> 'a list" where
  "py_slice_from xs i =
     (if i < 0 then drop (nat (max (int (length xs) + i) 0)) xs else drop (nat i) xs)"

section \<open>ChatContext\<close>

record entry =
  role :: string
  content :: string

record ChatContext =
  user_id :: string
  username :: string
  chat_history :: "entry list"

definition add_message :: "ChatContext \<Rightarrow> string \<Rightarrow> string \<Rightarrow> ChatContext" where
  "add_message ctx r c = ctx\<lparr>chat_history := chat_history ctx @ [\<lparr>role = r, content = c\<rparr>]\<rparr>"

definition role_display :: "entry \<Rightarrow> string" where
  "role_display e = (if role e = ''user'' then ''User'' else ''System'')"

text \<open>The entries the loop of \<^verbatim>\<open>get_history_text\<close> visits: \<^verbatim>\<open>self.chat_history[-max_messages:]\<close>.\<close>

definition history_window :: "ChatContext \<Rightarrow> int \<Rightarrow> entry list" where
  "history_window ctx max_messages = py_slice_from (chat_history ctx) (- max_messages)"

definition header :: string where
  "header = ''\<newline>CHAT HISTORY:\<newline>''"

text \<open>The \<^verbatim>\<open>for\<close> loop appends one line per entry to the accumulated text.\<close>

definition get_history_text :: "ChatContext \<Rightarrow> int \<Rightarrow> string" where
  "get_history_text ctx max_messages =
     (if chat_history ctx = [] then []
      else foldl (\<lambda>history_text e. history_text @ role_display e @ '': '' @ content e @ ''\<newline>'')
             header (history_window ctx max_messages))"

section \<open>One turn of the chat loop\<close>

record Agent =
  name :: string
  instructions :: string
  handoffs :: "string list"

definition placeholder :: string where
  "placeholder = ''{{CHAT_HISTORY}}''"

text \<open>
  \<^verbatim>\<open>Runner.run\<close> belongs to the agents SDK. It either raises (a failure of the model call,
  or the cancellation of the awaited coroutine) or returns a result whose
  \<^verbatim>\<open>final_output\<close> the caller reads; the outputs of the tools it ran on the way stay in
  the result's \<^verbatim>\<open>new_items\<close>. The tools of the examples read
  \<^verbatim>\<open>wrapper.context.username\<close> only, so the runner is a function of the agent, the input
  and the context.
\<close>

datatype raised = CancelledError | RunnerException string

record RunResult =
  final_output :: string
  new_items :: "string list"

type_synonym runner = "Agent \<Rightarrow> string \<Rightarrow> ChatContext \<Rightarrow> raised + RunResult"

text \<open>
  \<^verbatim>\<open>process_message\<close> (and, statement for statement, the body of the \<^verbatim>\<open>while\<close> loop of
  the two console examples). \<^verbatim>\<open>get_history_text()\<close> is called with its default window
  of 5. The context and the agent are mutable objects, so the model returns them with
  the outcome; when the runner raises, the exception leaves the function with both as
  they are at that point.
\<close>

definition process_message ::
  "runner \<Rightarrow> ChatContext \<Rightarrow> string \<Rightarrow> Agent \<Rightarrow> (raised + string) \<times> ChatContext \<times> Agent" where
  "process_message run ctx message triage_agent =
     (let ctx1 = add_message ctx ''user'' message;
          history_text = get_history_text ctx1 5;
          current_instructions = str_replace (instructions triage_agent) placeholder history_text;
          agent1 = triage_agent\<lparr>instructions := current_instructions\<rparr>
      in case run agent1 message ctx1 of
           Inl e \<Rightarrow> (Inl e, ctx1, agent1)
         | Inr result \<Rightarrow>
             (let response = final_output result;
                  ctx2 = add_message ctx1 ''system'' response;
                  agent2 = agent1\<lparr>instructions :=
                             str_replace (instructions agent1) history_text placeholder\<rparr>
              in (Inr response, ctx2, agent2)))"

text \<open>
  Two steps of the turn on their own. The render step is the three statements under the
  comment \<^verbatim>\<open># Update instructions with current history\<close>, the reset step the statement
  under \<^verbatim>\<open># Reset template placeholder for next iteration\<close>.
\<close>

definition update_instructions :: "ChatContext \<Rightarrow> Agent \<Rightarrow> Agent" where
  "update_instructions ctx agent =
     (let history_text = get_history_text ctx 5;
          current_instructions = str_replace (instructions agent) placeholder history_text
      in agent\<lparr>instructions := current_instructions\<rparr>)"

definition reset_instructions :: "string \<Rightarrow> Agent \<Rightarrow> Agent" where
  "reset_instructions history_text agent =
     agent\<lparr>instructions := str_replace (instructions agent) history_text placeholder\<rparr>"

section \<open>The registry of custom API tools\<close>

text \<open>
  A parsed JSON document. An object is the item list of the Python \<^verbatim>\<open>dict\<close> that
  \<^verbatim>\<open>json.loads\<close> builds (in a \<^verbatim>\<open>dict\<close> the keys are distinct); a number keeps its
  literal, since only its not being a string matters here.
\<close>

datatype json =
  JNull | JBool bool | JNumber string | JString string | JArray "json list"
| JObject "(string \<times> json) list"

datatype py_exception = JSONDecodeError | RecursionError | TypeError | AttributeError | KeyError

datatype function_tool = get_cat_fact

type_synonym registry = "string \<rightharpoonup> function_tool"

definition register_cat_fact_tool :: "registry \<Rightarrow> function_tool \<times> registry" where
  "register_cat_fact_tool custom_api_tools =
     (get_cat_fact, custom_api_tools(''cat_fact'' \<mapsto> get_cat_fact))"

text \<open>
  \<^verbatim>\<open>key in config\<close>: a key test on a dict, a membership test on a list, a substring test
  on a string, and a \<^verbatim>\<open>TypeError\<close> on a number, a boolean or \<^verbatim>\<open>None\<close>.
\<close>

fun json_contains :: "string \<Rightarrow> json \<Rightarrow> py_exception + bool" where
  "json_contains key (JObject items) = Inr (map_of items key \<noteq> None)"
| "json_contains key (JArray xs) =
     Inr (list_ex (\<lambda>v. case v of JString s \<Rightarrow> s = key | _ \<Rightarrow> False) xs)"
| "json_contains key (JString s) = Inr (py_in key s)"
| "json_contains key _ = Inl TypeError"

text \<open>\<^verbatim>\<open>config.get(key, fallback)\<close>: only a dict has the method.\<close>

fun json_get :: "json \<Rightarrow> string \<Rightarrow> json \<Rightarrow> py_exception + json" where
  "json_get (JObject items) key fallback =
     Inr (case map_of items key of None \<Rightarrow> fallback | Some v \<Rightarrow> v)"
| "json_get _ key fallback = Inl AttributeError"

text \<open>
  \<^verbatim>\<open>value.lower()\<close>: only a string has the method; \<^verbatim>\<open>lower\<close> is Python's
  \<^verbatim>\<open>str.lower\<close>.
\<close>

fun json_lower :: "(string \<Rightarrow> string) \<Rightarrow> json \<Rightarrow> py_exception + string" where
  "json_lower lower (JString s) = Inr (lower s)"
| "json_lower lower _ = Inl AttributeError"

text \<open>\<^verbatim>\<open>config[key]\<close> with a string key.\<close>

fun json_index :: "json \<Rightarrow> string \<Rightarrow> py_exception + json" where
  "json_index (JObject items) key =
     (case map_of items key of None \<Rightarrow> Inl KeyError | Some v \<Rightarrow> Inr v)"
| "json_index _ key = Inl TypeError"

text \<open>
  A value inside an f-string: a string is inserted as it is, any other value through
  Python's \<^verbatim>\<open>str\<close>, which is a parameter of the model.
\<close>

fun format_value :: "(json \<Rightarrow> string) \<Rightarrow> json \<Rightarrow> string" where
  "format_value py_str (JString s) = s"
| "format_value py_str v = py_str v"

text \<open>
  The \<^verbatim>\<open>try\<close> block of \<^verbatim>\<open>register_api_tool_from_config\<close>. Its argument is the outcome
  of \<^verbatim>\<open>json.loads(config_json)\<close>; it gives the returned message or the exception raised,
  with the registry as it is at that point. In \<^verbatim>\<open>"name" not in config or "url" not in config\<close>
  the second test is evaluated only when the first finds the key.
\<close>

definition try_block ::
  "(string \<Rightarrow> string) \<Rightarrow> (json \<Rightarrow> string) \<Rightarrow> registry \<Rightarrow> py_exception + json
     \<Rightarrow> (py_exception + string) \<times> registry" where
  "try_block lower py_str custom_api_tools loaded =
     (case loaded of
        Inl e \<Rightarrow> (Inl e, custom_api_tools)
      | Inr config \<Rightarrow>
     (case json_contains ''name'' config of
        Inl e \<Rightarrow> (Inl e, custom_api_tools)
      | Inr has_name \<Rightarrow>
     (case (if has_name then json_contains ''url'' config else Inr False) of
        Inl e \<Rightarrow> (Inl e, custom_api_tools)
      | Inr has_url \<Rightarrow>
     if \<not> has_name \<or> \<not> has_url
     then (Inr ''Error: API configuration must include 'name' and 'url' fields'',
           custom_api_tools)
     else
     (case json_get config ''type'' (JString []) of
        Inl e \<Rightarrow> (Inl e, custom_api_tools)
      | Inr type_value \<Rightarrow>
     (case json_lower lower type_value of
        Inl e \<Rightarrow> (Inl e, custom_api_tools)
      | Inr tool_type \<Rightarrow>
     if tool_type = ''cat_fact''
     then (let (tool, registered) = register_cat_fact_tool custom_api_tools
           in case json_index config ''name'' of
                Inl e \<Rightarrow> (Inl e, registered)
              | Inr v \<Rightarrow>
                  (Inr (''Successfully registered '' @ CHR 0x27 # format_value py_str v
                         @ CHR 0x27 # '' API tool''),
                   registered))
     else (Inr (''Error: Unsupported API tool type '' @ CHR 0x27 # tool_type
                 @ CHR 0x27 # ''. Currently supported types: cat_fact''),
           custom_api_tools))))))"

text \<open>
  The two \<^verbatim>\<open>except\<close> clauses turn an exception into a message; the text of an exception,
  \<^verbatim>\<open>str(e)\<close>, is the interpreter's and a parameter of the model, as \<^verbatim>\<open>str.lower\<close> is.
\<close>

definition register_api_tool_from_config ::
  "(string \<Rightarrow> string) \<Rightarrow> (py_exception \<Rightarrow> string) \<Rightarrow> (json \<Rightarrow> string) \<Rightarrow> registry
     \<Rightarrow> py_exception + json \<Rightarrow> string \<times> registry" where
  "register_api_tool_from_config lower exc_str py_str custom_api_tools loaded =
     (case try_block lower py_str custom_api_tools loaded of
        (Inr message, tools) \<Rightarrow> (message, tools)
      | (Inl JSONDecodeError, tools) \<Rightarrow> (''Error: Invalid JSON configuration'', tools)
      | (Inl e, tools) \<Rightarrow> (''Error registering API tool: '' @ exc_str e, tools))"

section \<open>The triage agent of the Gradio example\<close>

text \<open>\<^verbatim>\<open>sep.join(xs)\<close>.\<close>

definition str_join :: "string \<Rightarrow> string list \<Rightarrow> string" where
  "str_join sep xs = (case xs of [] \<Rightarrow> [] | x # rest \<Rightarrow> x @ concat (map (\<lambda>y. sep @ y) rest))"

definition agent_descriptions :: "registry \<Rightarrow> string list" where
  "agent_descriptions custom_api_tools =
     [''- Weather Agent: Use for questions about weather in different cities. Always require a city name.'',
      ''- Joke Agent: Use for requests for jokes or humor.'',
      ''- Bitcoin Agent: Use for questions about Bitcoin prices.'',
      ''- Time Agent: Use for questions about the current time.'']
     @ (if custom_api_tools ''cat_fact'' \<noteq> None
        then [''- Cat Fact Agent: Use for requests about cat facts.''] else [])"

definition agent_instructions :: "registry \<Rightarrow> string" where
  "agent_instructions custom_api_tools =
     ''\<newline>AVAILABLE AGENTS:\<newline>'' @ str_join ''\<newline>'' (agent_descriptions custom_api_tools)"

text \<open>
  \<^verbatim>\<open>create_agents\<close> writes the instructions as an f-string. In an f-string a doubled
  brace stands for a single one, so the text after the list of agents ends with
  \<^verbatim>\<open>{CHAT_HISTORY}\<close> in single braces.
\<close>

definition create_agents :: "registry \<Rightarrow> Agent" where
  "create_agents custom_api_tools =
     \<lparr>name = ''Triage Agent'',
      instructions =
        ''\<newline>        You determine which agent to use based on the user's history and current request.\<newline>        \<newline>        USER PROFILE:\<newline>        - You're talking to a user who might ask about various topics\<newline>        - Try to route requests to the appropriate specialized agent\<newline>        ''
        @ agent_instructions custom_api_tools
        @ ''\<newline>        \<newline>        Respond directly for general questions that don't fit these categories.\<newline>        \<newline>        {CHAT_HISTORY}\<newline>        '',
      handoffs =
        [''Weather Agent'', ''Joke Agent'', ''Bitcoin Agent'', ''Time Agent'']
        @ (if custom_api_tools ''cat_fact'' \<noteq> None then [''Cat Fact Agent''] else [])\<rparr>"

section \<open>Concrete inputs\<close>

text \<open>The context the console example starts from, and the triage agent of \<^verbatim>\<open>6_simple_chat\<close>.\<close>

definition new_context :: ChatContext where
  "new_context = \<lparr>user_id = ''user123'', username = ''Guest'', chat_history = []\<rparr>"

definition triage_instructions :: string where
  "triage_instructions =
     ''\<newline>        You determine which agent to use based on the user's history and current request.\<newline>        \<newline>        USER PROFILE:\<newline>        - The user has asked about Bitcoin twice in the last few days\<newline>        - The user usually asks for jokes on Fridays\<newline>        \<newline>        Use the Bitcoin agent for questions about cryptocurrencies and prices.\<newline>        Use the Jokes agent for humor or entertainment requests.\<newline>        Respond directly for general questions.\<newline>        \<newline>        {{CHAT_HISTORY}}\<newline>        ''"

definition triage_agent :: Agent where
  "triage_agent =
     \<lparr>name = ''Triage Agent'', instructions = triage_instructions,
      handoffs = [''Bitcoin Agent'', ''Jokes Agent'']\<rparr>"


text \<open>An agent whose instructions quote a line of chat history before the placeholder.\<close>

definition quoting_agent :: Agent where
  "quoting_agent =
     \<lparr>name = ''Triage Agent'',
      instructions = ''\<newline>CHAT HISTORY:\<newline>User: hi\<newline>{{CHAT_HISTORY}}'',
      handoffs = []\<rparr>"

text \<open>A run that answers after one tool call, and a run that is cancelled.\<close>

definition answering_runner :: runner where
  "answering_runner agent input ctx =
     Inr \<lparr>final_output = ''It is sunny in Paris.'',
          new_items = [''Current weather in Paris, France for Guest'']\<rparr>"

definition cancelled_runner :: runner where
  "cancelled_runner agent input ctx = Inl CancelledError"

text \<open>
  Three descriptors: one with \<^verbatim>\<open>name\<close>, \<^verbatim>\<open>url\<close> and \<^verbatim>\<open>type\<close> but no
  \<^verbatim>\<open>inputSchema\<close>; the same with the type in capitals; and the one of the interface's
  own example, \<^verbatim>\<open>!register {"name": "Cat Facts API", "type": "cat_fact"}\<close>.
\<close>

definition cat_descriptor :: json where
  "cat_descriptor =
     JObject [(''name'', JString ''Cat Facts API''),
              (''url'', JString ''https://catfact.ninja/fact''),
              (''type'', JString ''cat_fact'')]"

definition capitals_descriptor :: json where
  "capitals_descriptor =
     JObject [(''name'', JString ''Cat Facts API''),
              (''url'', JString ''https://catfact.ninja/fact''),
              (''type'', JString ''CAT_FACT'')]"

definition example_descriptor :: json where
  "example_descriptor =
     JObject [(''name'', JString ''Cat Facts API''), (''type'', JString ''cat_fact'')]"

definition no_text :: "'a \<Rightarrow> string" where
  "no_text x = []"

section \<open>Properties of the string operations\<close>

text \<open>\<^const>\<open>py_in\<close> is the substring relation.\<close>

lemma py_in_sublist: "py_in old s = sublist old s"
  by (induction s) (auto simp: sublist_Cons_right)

lemma py_in_iff: "py_in old s \<longleftrightarrow> (\<exists>p q. s = p @ old @ q)"
  by (simp add: py_in_sublist sublist_def)

text \<open>Where \<^verbatim>\<open>old\<close> does not occur, \<^verbatim>\<open>replace\<close> returns the string as it is.\<close>

lemma replace_ne_absent: "\<not> py_in old s \<Longrightarrow> replace_ne s old new = s"
  by (induction s) auto

lemma str_replace_absent:
  assumes "\<not> py_in old s"
  shows "str_replace s old new = s"
proof (cases "old = []")
  case True
  with assms show ?thesis by (cases s) auto
next
  case False
  with assms show ?thesis by (simp add: str_replace_def replace_ne_absent)
qed

lemma replace_ne_at_match:
  "old \<noteq> [] \<Longrightarrow> replace_ne (old @ r) old new = new @ replace_ne r old new"
  by (cases old) simp_all

text \<open>
  A stretch of the result that is free of the first character of \<^verbatim>\<open>new\<close> was copied
  from the input, character by character.
\<close>

lemma prefix_of_replace_ne:
  assumes "new \<noteq> []" and "hd new \<notin> set m"
    and "prefix (m @ y) (replace_ne s old new)"
  shows "\<exists>s'. s = m @ s' \<and> prefix y (replace_ne s' old new)"
  using assms
proof (induction m arbitrary: s)
  case Nil
  then show ?case by simp
next
  case (Cons b m)
  show ?case
  proof (cases s)
    case Nil
    with Cons.prems show ?thesis by simp
  next
    case (Cons c cs)
    show ?thesis
    proof (cases "old \<noteq> [] \<and> prefix old (c # cs)")
      case True
      with Cons Cons.prems obtain n ns where "new = n # ns" "n = b"
        by (cases new) auto
      with Cons.prems show ?thesis by simp
    next
      case False
      with Cons Cons.prems have "b = c" and "prefix (m @ y) (replace_ne cs old new)"
        by auto
      moreover from Cons.prems have "hd new \<notin> set m" by simp
      ultimately obtain s' where "cs = m @ s'" "prefix y (replace_ne s' old new)"
        using Cons.IH[OF Cons.prems(1)] by blast
      with Cons \<open>b = c\<close> show ?thesis by simp
    qed
  qed
qed

lemma py_in_drop: "py_in x (drop n t) \<Longrightarrow> py_in x t"
  unfolding py_in_sublist using sublist_drop sublist_order.order_trans by blast

lemma py_in_Cons: "py_in x cs \<Longrightarrow> py_in x (c # cs)"
  by simp

text \<open>
  Replacing \<^verbatim>\<open>old\<close> by \<^verbatim>\<open>new\<close> and then \<^verbatim>\<open>new\<close> by \<^verbatim>\<open>old\<close> gives the input back
  when \<^verbatim>\<open>new\<close> opens with a delimited marker \<^verbatim>\<open>a m a\<close> that the input does not contain
  and that does not repeat at once inside \<^verbatim>\<open>new\<close>.
\<close>

lemma replace_ne_round_trip:
  assumes new: "new = a # m @ a # x # rest" and am: "a \<notin> set m" and m: "m \<noteq> []"
    and x: "x \<noteq> hd m" and old: "old \<noteq> []"
  shows "\<not> py_in (a # m @ [a]) t \<Longrightarrow> replace_ne (replace_ne t old new) new old = t"
proof (induction "length t" arbitrary: t rule: less_induct)
  case less
  have new_ne: "new \<noteq> []" and hd_new: "hd new \<notin> set m"
    using new am by simp_all
  show ?case
  proof (cases t)
    case Nil
    then show ?thesis by simp
  next
    case (Cons c cs)
    show ?thesis
    proof (cases "prefix old (c # cs)")
      case True
      then obtain t' where t': "t = old @ t'"
        using Cons by (auto elim: prefixE)
      have "\<not> py_in (a # m @ [a]) t'"
        using less.prems py_in_drop[of _ "length old" t] t' by auto
      moreover have "length t' < length t"
        using t' old by simp
      ultimately have "replace_ne (replace_ne t' old new) new old = t'"
        by (rule less.hyps[rotated])
      then show ?thesis
        using t' old new_ne by (simp add: replace_ne_at_match)
    next
      case False
      have step: "replace_ne t old new = c # replace_ne cs old new"
        using False Cons by simp
      have no_match: "\<not> prefix new (c # replace_ne cs old new)"
      proof
        assume p: "prefix new (c # replace_ne cs old new)"
        then have c: "c = a" and "prefix (m @ a # x # rest) (replace_ne cs old new)"
          using new by (metis Cons_prefix_Cons)+
        then obtain s' where s': "cs = m @ s'"
          and ps': "prefix (a # x # rest) (replace_ne s' old new)"
          using prefix_of_replace_ne[OF new_ne hd_new] by blast
        show False
        proof (cases s')
          case Nil
          with ps' show False by simp
        next
          case (Cons d ds)
          show False
          proof (cases "prefix old (d # ds)")
            case True
            then have "replace_ne s' old new = new @ replace_ne (drop (length old) s') old new"
              using Cons old by simp
            with ps' have "prefix (x # rest) (m @ a # x # rest @ replace_ne (drop (length old) s') old new)"
              using new by simp
            with m x show False by (cases m) simp_all
          next
            case False
            then have "replace_ne s' old new = d # replace_ne ds old new"
              using Cons by simp
            with ps' have "d = a" by simp
            then have "t = (a # m @ [a]) @ ds"
              using \<open>t = c # cs\<close> c s' Cons by simp
            then have "py_in (a # m @ [a]) t"
              unfolding py_in_sublist by (metis sublist_append_rightI)
            with less.prems show False by simp
          qed
        qed
      qed
      have "\<not> py_in (a # m @ [a]) cs"
        using less.prems Cons by auto
      moreover have "length cs < length t"
        using Cons by simp
      ultimately have "replace_ne (replace_ne cs old new) new old = cs"
        by (rule less.hyps[rotated])
      then show ?thesis
        using step no_match Cons by simp
    qed
  qed
qed

text \<open>
  Replacing changes the string wherever \<^verbatim>\<open>old\<close> occurs, provided \<^verbatim>\<open>new\<close> is empty or
  starts with another character than \<^verbatim>\<open>old\<close>.
\<close>

lemma replace_ne_length_le: "length (replace_ne s old []) \<le> length s"
proof (induction "length s" arbitrary: s rule: less_induct)
  case less
  show ?case
  proof (cases s)
    case Nil
    then show ?thesis by simp
  next
    case (Cons c cs)
    show ?thesis
    proof (cases "old \<noteq> [] \<and> prefix old (c # cs)")
      case True
      then have "length (drop (length old) s) < length s"
        using Cons by simp
      then have "length (replace_ne (drop (length old) s) old []) \<le> length (drop (length old) s)"
        by (rule less.hyps)
      with True Cons show ?thesis by simp
    next
      case False
      have "length (replace_ne cs old []) \<le> length cs"
        using Cons by (intro less.hyps) simp
      with False Cons show ?thesis by auto
    qed
  qed
qed

lemma replace_ne_changes:
  assumes "old \<noteq> []" and "new = [] \<or> hd new \<noteq> hd old"
  shows "py_in old s \<Longrightarrow> replace_ne s old new \<noteq> s"
proof (induction s)
  case Nil
  with assms show ?case by simp
next
  case (Cons c cs)
  show ?case
  proof (cases "prefix old (c # cs)")
    case True
    show ?thesis
    proof (cases new)
      case Nil
      have "length (replace_ne (drop (length old) (c # cs)) old []) \<le> length (drop (length old) (c # cs))"
        by (rule replace_ne_length_le)
      also have "\<dots> < length (c # cs)"
        using assms(1) by simp
      finally show ?thesis
        using True Nil assms(1) by auto
    next
      case (Cons n ns)
      moreover from True assms(1) have "hd old = c"
        by (cases old) simp_all
      ultimately show ?thesis
        using True assms by auto
    qed
  next
    case False
    with Cons show ?thesis by auto
  qed
qed



section \<open>The history window and the history text\<close>

lemma foldl_append_concat: "foldl (\<lambda>acc e. acc @ f e) h xs = h @ concat (map f xs)"
  by (induction xs arbitrary: h) auto

lemma get_history_text_lines:
  "chat_history ctx \<noteq> [] \<Longrightarrow>
   get_history_text ctx k =
     header @ concat (map (\<lambda>e. role_display e @ '': '' @ content e @ ''\<newline>'') (history_window ctx k))"
  by (simp add: get_history_text_def foldl_append_concat)

lemma get_history_text_empty: "chat_history ctx = [] \<Longrightarrow> get_history_text ctx k = []"
  by (simp add: get_history_text_def)

text \<open>For a window size of at least one the window is the last entries of the history.\<close>

lemma history_window_positive:
  assumes "0 < k"
  shows "history_window ctx k = drop (length (chat_history ctx) - nat k) (chat_history ctx)"
proof -
  have "nat (max (int (length (chat_history ctx)) + - k) 0) = length (chat_history ctx) - nat k"
    using assms by (simp add: max_def nat_diff_distrib')
  with assms show ?thesis
    by (simp add: history_window_def py_slice_from_def)
qed

lemma history_window_length:
  "0 < k \<Longrightarrow> length (history_window ctx k) = min (nat k) (length (chat_history ctx))"
  by (simp add: history_window_positive)

lemma history_window_last_entries:
  "0 < k \<Longrightarrow> \<exists>earlier. chat_history ctx = earlier @ history_window ctx k"
  by (metis append_take_drop_id history_window_positive)

lemma chat_history_add_message:
  "chat_history (add_message ctx r c) = chat_history ctx @ [\<lparr>role = r, content = c\<rparr>]"
  by (simp add: add_message_def)

lemma chat_history_after_messages:
  "chat_history (foldl (\<lambda>c (r, t). add_message c r t) ctx msgs) =
     chat_history ctx @ map (\<lambda>(r, t). \<lparr>role = r, content = t\<rparr>) msgs"
  by (induction msgs arbitrary: ctx) (auto simp: chat_history_add_message)

text \<open>
  Claim C3. For every sequence of \<^verbatim>\<open>add_message\<close> calls and every window size \<^verbatim>\<open>k\<close>
  the history window is the last \<^verbatim>\<open>min(k, len(history))\<close> entries in insertion order.
  For \<^verbatim>\<open>k \<ge> 1\<close> this is shown above (\<open>history_window_positive\<close>). For \<^verbatim>\<open>k = 0\<close> the
  slice \<^verbatim>\<open>chat_history[-0:]\<close> is the whole history: the window holds
  \<^verbatim>\<open>len(history)\<close> entries where the claim says none, and after a single message the
  history text still shows that message.
\<close>

theorem history_window_zero_is_whole_history:
  "history_window ctx 0 = chat_history ctx \<and>
   get_history_text (add_message new_context ''user'' ''hi'') 0
     = ''\<newline>CHAT HISTORY:\<newline>User: hi\<newline>''"
  by (simp add: history_window_def py_slice_from_def get_history_text_def add_message_def
      new_context_def header_def role_display_def)

section \<open>Rendering the instructions\<close>

text \<open>
  Claim C8. For every template without an occurrence of the placeholder
  \<^verbatim>\<open>{{CHAT_HISTORY}}\<close>, every context and every window size, rendering returns the
  template unchanged.
\<close>

theorem render_without_placeholder:
  assumes "\<not> py_in placeholder template"
  shows "str_replace template placeholder (get_history_text ctx max_messages) = template"
  using assms by (rule str_replace_absent)

theorem render_without_placeholder_witness:
  "\<not> py_in placeholder ''Provide the current Bitcoin price when requested'' \<and>
   str_replace ''Provide the current Bitcoin price when requested'' placeholder
     (get_history_text (add_message new_context ''user'' ''hi'') 5)
   = ''Provide the current Bitcoin price when requested''"
proof -
  have h: "\<not> py_in placeholder ''Provide the current Bitcoin price when requested''"
    by (simp add: placeholder_def)
  show ?thesis
    using h render_without_placeholder [OF h] by simp
qed

lemma instructions_update_instructions:
  "instructions (update_instructions ctx agent)
     = str_replace (instructions agent) placeholder (get_history_text ctx 5)"
  by (simp add: update_instructions_def)

text \<open>The history text is empty or starts with the newline of the header.\<close>

lemma get_history_text_head:
  "get_history_text ctx k = [] \<or> hd (get_history_text ctx k) = CHR 0x0A"
proof (cases "chat_history ctx = []")
  case True
  then show ?thesis by (simp add: get_history_text_def)
next
  case False
  then show ?thesis by (simp add: get_history_text_lines header_def)
qed

lemma render_changes_template:
  assumes "py_in placeholder template"
  shows "str_replace template placeholder (get_history_text ctx k) \<noteq> template"
proof -
  have ne: "placeholder \<noteq> []" and hd: "hd placeholder \<noteq> CHR 0x0A"
    by (simp_all add: placeholder_def)
  have "get_history_text ctx k = [] \<or> hd (get_history_text ctx k) \<noteq> hd placeholder"
    using get_history_text_head[of ctx k] hd by auto
  then have "replace_ne template placeholder (get_history_text ctx k) \<noteq> template"
    using ne assms by (intro replace_ne_changes)
  with ne show ?thesis
    by (simp add: str_replace_def)
qed

text \<open>
  Claim C1, as amended. The render step assigns the rendered string to the agent's
  \<^verbatim>\<open>instructions\<close> field: after the step the stored string is the template with every
  occurrence of the placeholder replaced by the history text, and it is the string stored
  before the step exactly when the template holds no occurrence of the placeholder.
\<close>

theorem update_instructions_overwrites:
  "instructions (update_instructions ctx agent)
     = str_replace (instructions agent) placeholder (get_history_text ctx 5) \<and>
   (instructions (update_instructions ctx agent) = instructions agent
      \<longleftrightarrow> \<not> py_in placeholder (instructions agent))"
  using render_changes_template[of "instructions agent" ctx 5]
    str_replace_absent[of placeholder "instructions agent" "get_history_text ctx 5"]
  by (auto simp: instructions_update_instructions)

text \<open>The amended claim at an agent whose instructions hold the placeholder.\<close>

theorem update_instructions_overwrites_witness:
  "py_in placeholder (instructions quoting_agent) \<and>
   instructions (update_instructions (add_message new_context ''user'' ''hi'') quoting_agent)
     \<noteq> instructions quoting_agent"
proof -
  have "py_in placeholder (instructions quoting_agent)"
    by (simp add: placeholder_def quoting_agent_def)
  then show ?thesis
    using update_instructions_overwrites[of "add_message new_context ''user'' ''hi''" quoting_agent]
    by blast
qed

text \<open>
  Claim C1 as stated fails: for the triage agent of the console example, after the first
  message the stored instructions differ from the template stored before the render step.
\<close>

theorem render_step_overwrites_template:
  "instructions (update_instructions (add_message new_context ''user'' ''hi'') triage_agent)
     \<noteq> instructions triage_agent"
proof -
  have "py_in placeholder (instructions triage_agent)"
    by (simp add: placeholder_def triage_agent_def triage_instructions_def)
  then show ?thesis
    by (simp add: instructions_update_instructions render_changes_template)
qed



text \<open>
  The instructions that \<^const>\<open>create_agents\<close> builds hold no placeholder, with or without
  the cat fact tool in the registry: in the Gradio example the render step leaves them as
  they are, and the history text does not reach them.
\<close>

lemma create_agents_no_placeholder:
  "\<not> py_in placeholder (instructions (create_agents custom_api_tools))"
  by (simp add: create_agents_def agent_instructions_def agent_descriptions_def str_join_def
      placeholder_def)

lemma create_agents_instructions_unchanged:
  "instructions (update_instructions ctx (create_agents custom_api_tools))
     = instructions (create_agents custom_api_tools)"
  by (simp add: instructions_update_instructions str_replace_absent create_agents_no_placeholder)

section \<open>The turn\<close>

lemma history_window_nonempty:
  assumes "chat_history ctx \<noteq> []"
  shows "history_window ctx 5 \<noteq> []"
  using assms by (cases "chat_history ctx") (simp_all add: history_window_positive)

text \<open>
  With the default window a non-empty history gives a text that opens with the header
  and goes on with \<^verbatim>\<open>User\<close> or \<^verbatim>\<open>System\<close>.
\<close>

lemma get_history_text_shape:
  assumes "chat_history ctx \<noteq> []"
  shows "\<exists>x rest. get_history_text ctx 5 = CHR 0x0A # ''CHAT HISTORY:'' @ CHR 0x0A # x # rest
           \<and> x \<noteq> CHR ''C''"
proof -
  obtain e es where w: "history_window ctx 5 = e # es"
    using history_window_nonempty[OF assms] by (cases "history_window ctx 5") auto
  show ?thesis
    using get_history_text_lines[OF assms, of 5] w
    by (simp add: header_def role_display_def)
qed

lemma history_text_round_trip:
  assumes "\<not> py_in header template" and "chat_history ctx \<noteq> []"
  shows "str_replace (str_replace template placeholder (get_history_text ctx 5))
           (get_history_text ctx 5) placeholder = template"
proof -
  obtain x rest
    where shape: "get_history_text ctx 5 = CHR 0x0A # ''CHAT HISTORY:'' @ CHR 0x0A # x # rest"
      and x: "x \<noteq> CHR ''C''"
    using get_history_text_shape[OF assms(2)] by blast
  have marker: "header = CHR 0x0A # ''CHAT HISTORY:'' @ [CHR 0x0A]"
    by (simp add: header_def)
  have "replace_ne (replace_ne template placeholder (get_history_text ctx 5))
          (get_history_text ctx 5) placeholder = template"
  proof (rule replace_ne_round_trip[OF shape])
    show "CHR 0x0A \<notin> set ''CHAT HISTORY:''" by simp
    show "''CHAT HISTORY:'' \<noteq> []" by simp
    show "x \<noteq> hd ''CHAT HISTORY:''" using x by simp
    show "placeholder \<noteq> []" by (simp add: placeholder_def)
    show "\<not> py_in (CHR 0x0A # ''CHAT HISTORY:'' @ [CHR 0x0A]) template"
      using assms(1) marker by simp
  qed
  moreover have "placeholder \<noteq> []" "get_history_text ctx 5 \<noteq> []"
    using shape by (simp_all add: placeholder_def)
  ultimately show ?thesis
    by (simp add: str_replace_def)
qed

text \<open>The two ways out of \<^const>\<open>process_message\<close>.\<close>

lemma process_message_completed:
  assumes "run (update_instructions (add_message ctx ''user'' message) agent) message
             (add_message ctx ''user'' message) = Inr result"
  shows "process_message run ctx message agent =
           (Inr (final_output result),
            add_message (add_message ctx ''user'' message) ''system'' (final_output result),
            reset_instructions (get_history_text (add_message ctx ''user'' message) 5)
              (update_instructions (add_message ctx ''user'' message) agent))"
  using assms
  by (simp add: process_message_def Let_def update_instructions_def reset_instructions_def)

lemma process_message_raised:
  assumes "run (update_instructions (add_message ctx ''user'' message) agent) message
             (add_message ctx ''user'' message) = Inl e"
  shows "process_message run ctx message agent =
           (Inl e, add_message ctx ''user'' message,
            update_instructions (add_message ctx ''user'' message) agent)"
  using assms
  by (simp add: process_message_def Let_def update_instructions_def reset_instructions_def)

lemma process_message_cases:
  obtains (completed) result where
      "run (update_instructions (add_message ctx ''user'' message) agent) message
         (add_message ctx ''user'' message) = Inr result"
      "fst (process_message run ctx message agent) = Inr (final_output result)"
  | (raised) e where
      "run (update_instructions (add_message ctx ''user'' message) agent) message
         (add_message ctx ''user'' message) = Inl e"
      "fst (process_message run ctx message agent) = Inl e"
proof (cases "run (update_instructions (add_message ctx ''user'' message) agent) message
         (add_message ctx ''user'' message)")
  case (Inl e)
  then show ?thesis using raised by (simp add: process_message_raised)
next
  case (Inr result)
  then show ?thesis using completed by (simp add: process_message_completed)
qed

text \<open>
  Claim C4. A turn that completes with a response leaves the history extended by exactly
  two entries: the user's message with the role \<^verbatim>\<open>user\<close>, then the response with the role
  \<^verbatim>\<open>system\<close>. Nothing of what the run produced on the way (\<^verbatim>\<open>new_items\<close>) enters the
  history.
\<close>

theorem completed_turn_appends_user_then_system:
  assumes "fst (process_message run ctx message agent) = Inr response"
  shows "chat_history (fst (snd (process_message run ctx message agent)))
           = chat_history ctx @ [\<lparr>role = ''user'', content = message\<rparr>,
                                 \<lparr>role = ''system'', content = response\<rparr>]"
proof (cases rule: process_message_cases[of run ctx message agent])
  case (completed result)
  with assms show ?thesis
    by (simp add: process_message_completed chat_history_add_message)
next
  case (raised e)
  with assms show ?thesis by simp
qed

text \<open>Claim C4 at a run that called a tool before it answered.\<close>

theorem completed_turn_appends_user_then_system_witness:
  "fst (process_message answering_runner new_context ''What is the weather in Paris?'' triage_agent)
     = Inr ''It is sunny in Paris.'' \<and>
   chat_history (fst (snd (process_message answering_runner new_context
        ''What is the weather in Paris?'' triage_agent)))
     = [\<lparr>role = ''user'', content = ''What is the weather in Paris?''\<rparr>,
        \<lparr>role = ''system'', content = ''It is sunny in Paris.''\<rparr>]"
proof -
  have 1: "fst (process_message answering_runner new_context ''What is the weather in Paris?''
             triage_agent) = Inr ''It is sunny in Paris.''"
    by (simp add: process_message_def Let_def answering_runner_def)
  show ?thesis
    using 1 completed_turn_appends_user_then_system [OF 1]
    by (simp add: new_context_def)
qed

text \<open>
  Claim C5, as amended. When the run raises or is cancelled before it gives a response,
  the user's message has been appended already and stays: the history is extended by
  that one entry and by no response, and the agent's instructions are left as rendered.
\<close>

theorem failed_turn_keeps_user_message:
  assumes "fst (process_message run ctx message agent) = Inl e"
  shows "chat_history (fst (snd (process_message run ctx message agent)))
           = chat_history ctx @ [\<lparr>role = ''user'', content = message\<rparr>]
         \<and> instructions (snd (snd (process_message run ctx message agent)))
           = str_replace (instructions agent) placeholder
               (get_history_text (add_message ctx ''user'' message) 5)"
proof (cases rule: process_message_cases[of run ctx message agent])
  case (completed result)
  with assms show ?thesis by simp
next
  case (raised e')
  then show ?thesis
    by (simp add: process_message_raised chat_history_add_message
        instructions_update_instructions)
qed

text \<open>The amended claim at a cancelled run.\<close>

theorem failed_turn_keeps_user_message_witness:
  "fst (process_message cancelled_runner new_context ''hi'' quoting_agent) = Inl CancelledError \<and>
   chat_history (fst (snd (process_message cancelled_runner new_context ''hi'' quoting_agent)))
     = chat_history new_context @ [\<lparr>role = ''user'', content = ''hi''\<rparr>]"
proof -
  have 1: "fst (process_message cancelled_runner new_context ''hi'' quoting_agent)
             = Inl CancelledError"
    by (simp add: process_message_def Let_def cancelled_runner_def)
  show ?thesis
    using 1 failed_turn_keeps_user_message [OF 1] by simp
qed

text \<open>
  Claim C5 as stated fails: the first turn of a session, cancelled during the run, leaves
  a history that holds the user's message and no response.
\<close>

theorem cancelled_turn_commits_user_message_only:
  "chat_history new_context = [] \<and>
   fst (process_message cancelled_runner new_context ''hi'' triage_agent) = Inl CancelledError \<and>
   chat_history (fst (snd (process_message cancelled_runner new_context ''hi'' triage_agent)))
     = [\<lparr>role = ''user'', content = ''hi''\<rparr>]"
  by (simp add: process_message_def Let_def cancelled_runner_def add_message_def new_context_def)

text \<open>
  Where the reset does undo the render step: for every template that does not contain the
  header line of the history text, and every context, a completed turn stores the template
  it started from. The triage agent of the console example is such a template.
\<close>

lemma completed_turn_restores_template:
  assumes "\<not> py_in header (instructions agent)"
    and "fst (process_message run ctx message agent) = Inr response"
  shows "instructions (snd (snd (process_message run ctx message agent))) = instructions agent"
proof (cases rule: process_message_cases[of run ctx message agent])
  case (completed result)
  have "chat_history (add_message ctx ''user'' message) \<noteq> []"
    by (simp add: add_message_def)
  with assms(1) completed(1) show ?thesis
    by (simp add: process_message_completed reset_instructions_def
        instructions_update_instructions history_text_round_trip)
next
  case (raised e)
  with assms(2) show ?thesis by simp
qed

lemma triage_agent_template_restored:
  "\<not> py_in header (instructions triage_agent) \<and>
   fst (process_message answering_runner new_context ''hi'' triage_agent)
     = Inr ''It is sunny in Paris.'' \<and>
   instructions (snd (snd (process_message answering_runner new_context ''hi'' triage_agent)))
     = instructions triage_agent"
proof -
  have 1: "\<not> py_in header (instructions triage_agent)"
    by (simp add: header_def triage_agent_def triage_instructions_def)
  have 2: "fst (process_message answering_runner new_context ''hi'' triage_agent)
             = Inr ''It is sunny in Paris.''"
    by (simp add: process_message_def Let_def answering_runner_def)
  show ?thesis
    using 1 2 completed_turn_restores_template [OF 1 2] by simp
qed

text \<open>
  Claim C9. For every template and every context the render step and the reset step of a
  turn are a round trip: replacing the placeholder by the history text and then the
  history text by the placeholder gives the template back. The code does not do this
  where the template quotes the very text the history will consist of: the reset, a plain
  \<^verbatim>\<open>replace\<close> of the history text, turns the quotation into a second placeholder, and the
  completed turn stores two placeholders instead of the template.
\<close>

theorem reset_corrupts_quoting_template:
  "fst (process_message answering_runner new_context ''hi'' quoting_agent)
     = Inr ''It is sunny in Paris.'' \<and>
   instructions quoting_agent = ''\<newline>CHAT HISTORY:\<newline>User: hi\<newline>{{CHAT_HISTORY}}'' \<and>
   instructions (snd (snd (process_message answering_runner new_context ''hi'' quoting_agent)))
     = ''{{CHAT_HISTORY}}{{CHAT_HISTORY}}'' \<and>
   instructions (snd (snd (process_message answering_runner new_context ''hi'' quoting_agent)))
     \<noteq> instructions quoting_agent"
  by (simp add: process_message_def Let_def answering_runner_def quoting_agent_def
      update_instructions_def reset_instructions_def add_message_def new_context_def
      get_history_text_def history_window_def py_slice_from_def header_def role_display_def
      str_replace_def placeholder_def)

section \<open>Registering a tool\<close>

lemma try_block_missing_field:
  assumes "map_of items ''name'' = None \<or> map_of items ''url'' = None"
  shows "try_block lower py_str tools (Inr (JObject items))
           = (Inr ''Error: API configuration must include 'name' and 'url' fields'', tools)"
  using assms by (auto simp: try_block_def)

text \<open>
  Past the validation the outcome is decided by the value of \<^verbatim>\<open>type\<close>: a string is
  lowered and compared, anything else has no \<^verbatim>\<open>lower\<close> method.
\<close>

lemma try_block_validated:
  assumes "map_of items ''name'' = Some name_value" and "map_of items ''url'' = Some url_value"
  shows "try_block lower py_str tools (Inr (JObject items))
           = (case (case map_of items ''type'' of None \<Rightarrow> JString [] | Some v \<Rightarrow> v) of
                JString t \<Rightarrow>
                  if lower t = ''cat_fact''
                  then (Inr (''Successfully registered '' @ CHR 0x27
                               # format_value py_str name_value @ CHR 0x27 # '' API tool''),
                        tools(''cat_fact'' \<mapsto> get_cat_fact))
                  else (Inr (''Error: Unsupported API tool type '' @ CHR 0x27 # lower t
                               @ CHR 0x27 # ''. Currently supported types: cat_fact''),
                        tools)
              | _ \<Rightarrow> (Inl AttributeError, tools))"
  using assms
  by (simp add: try_block_def register_cat_fact_tool_def split: option.splits json.splits)

text \<open>Whatever the input, the registry is left as it was or gains the entry \<^verbatim>\<open>cat_fact\<close>.\<close>

lemma try_block_registry:
  "snd (try_block lower py_str tools loaded) = tools
   \<or> snd (try_block lower py_str tools loaded) = tools(''cat_fact'' \<mapsto> get_cat_fact)"
  by (auto simp: try_block_def register_cat_fact_tool_def split: sum.splits)

lemma register_api_tool_registry:
  "snd (register_api_tool_from_config lower exc_str py_str tools loaded) = tools
   \<or> snd (register_api_tool_from_config lower exc_str py_str tools loaded)
        = tools(''cat_fact'' \<mapsto> get_cat_fact)"
  using try_block_registry[of lower py_str tools loaded]
  by (auto simp: register_api_tool_from_config_def
      split: prod.splits sum.splits py_exception.splits)

lemma ascii_lower_lower_case: "ascii_lower ''cat_fact'' = ''cat_fact''"
  by code_simp

lemma ascii_lower_capitals: "ascii_lower ''CAT_FACT'' = ''cat_fact''"
  by code_simp

lemma ascii_lower_mixed: "ascii_lower ''Cat_Fact'' = ''cat_fact''"
  by code_simp

text \<open>
  Claim C2, as amended. For every descriptor without the field \<^verbatim>\<open>name\<close> or without the
  field \<^verbatim>\<open>url\<close> the registration returns the message that these two fields are required
  and leaves the registry as it was. The field \<^verbatim>\<open>inputSchema\<close> is not looked at.
\<close>

theorem missing_name_or_url_is_rejected:
  assumes "map_of items ''name'' = None \<or> map_of items ''url'' = None"
  shows "register_api_tool_from_config lower exc_str py_str custom_api_tools
           (Inr (JObject items))
           = (''Error: API configuration must include 'name' and 'url' fields'', custom_api_tools)"
  using assms by (simp add: register_api_tool_from_config_def try_block_missing_field)

text \<open>The amended claim at the descriptor of the interface's own example, which has no \<^verbatim>\<open>url\<close>.\<close>

theorem missing_name_or_url_is_rejected_witness:
  "(map_of [(''name'', JString ''Cat Facts API''), (''type'', JString ''cat_fact'')] ''name'' = None
    \<or> map_of [(''name'', JString ''Cat Facts API''), (''type'', JString ''cat_fact'')] ''url'' = None)
   \<and> register_api_tool_from_config ascii_lower no_text no_text Map.empty (Inr example_descriptor)
       = (''Error: API configuration must include 'name' and 'url' fields'', Map.empty)"
proof -
  have h: "map_of [(''name'', JString ''Cat Facts API''), (''type'', JString ''cat_fact'')] ''name''
             = None
    \<or> map_of [(''name'', JString ''Cat Facts API''), (''type'', JString ''cat_fact'')] ''url''
             = None"
    by simp
  show ?thesis
    using h missing_name_or_url_is_rejected [OF h, of ascii_lower no_text no_text Map.empty]
    by (simp add: example_descriptor_def)
qed

text \<open>
  Claim C2 as stated fails: a descriptor without \<^verbatim>\<open>inputSchema\<close> is registered, and the
  tool is visible afterwards under a name that was not in the registry before.
\<close>

theorem descriptor_without_schema_is_registered:
  "json_contains ''inputSchema'' cat_descriptor = Inr False \<and>
   fst (register_api_tool_from_config ascii_lower no_text no_text Map.empty (Inr cat_descriptor))
     = ''Successfully registered 'Cat Facts API' API tool'' \<and>
   snd (register_api_tool_from_config ascii_lower no_text no_text Map.empty (Inr cat_descriptor))
     ''cat_fact'' = Some get_cat_fact"
  by (simp add: register_api_tool_from_config_def try_block_def cat_descriptor_def
      register_cat_fact_tool_def ascii_lower_lower_case)

text \<open>
  Claim C10, as amended. For every descriptor that passes the validation, with
  \<^verbatim>\<open>lower\<close> being Python's \<^verbatim>\<open>str.lower\<close>: when the type is a string whose lower case is
  \<^verbatim>\<open>cat_fact\<close>, the tool is stored under the key \<^verbatim>\<open>cat_fact\<close>, whatever the name, and
  the message of success quotes the name; when the type is a string with another lower
  case (a missing type counts as the empty string), the registry is left as it was and the
  message says that the type, in lower case, is unsupported; when the type is present and
  not a string, the registry is left as it was and the message is that of the general
  \<^verbatim>\<open>except\<close> clause for the \<^verbatim>\<open>AttributeError\<close>.
\<close>

theorem validated_descriptor_registration:
  assumes "map_of items ''name'' = Some name_value" and "map_of items ''url'' = Some url_value"
  shows "register_api_tool_from_config lower exc_str py_str custom_api_tools
           (Inr (JObject items))
           = (case (case map_of items ''type'' of None \<Rightarrow> JString [] | Some v \<Rightarrow> v) of
                JString t \<Rightarrow>
                  if lower t = ''cat_fact''
                  then (''Successfully registered '' @ CHR 0x27
                          # format_value py_str name_value @ CHR 0x27 # '' API tool'',
                        custom_api_tools(''cat_fact'' \<mapsto> get_cat_fact))
                  else (''Error: Unsupported API tool type '' @ CHR 0x27 # lower t
                          @ CHR 0x27 # ''. Currently supported types: cat_fact'',
                        custom_api_tools)
              | _ \<Rightarrow> (''Error registering API tool: '' @ exc_str AttributeError,
                      custom_api_tools))"
  using try_block_validated[OF assms, of lower py_str custom_api_tools]
  by (simp add: register_api_tool_from_config_def split: option.splits json.splits)

text \<open>The amended claim at a descriptor named \<^verbatim>\<open>Felines\<close> with the type \<^verbatim>\<open>Cat_Fact\<close>.\<close>

theorem validated_descriptor_registration_witness:
  "map_of [(''name'', JString ''Felines''), (''url'', JString ''https://catfact.ninja/fact''),
           (''type'', JString ''Cat_Fact'')] ''name'' = Some (JString ''Felines'') \<and>
   map_of [(''name'', JString ''Felines''), (''url'', JString ''https://catfact.ninja/fact''),
           (''type'', JString ''Cat_Fact'')] ''url'' = Some (JString ''https://catfact.ninja/fact'') \<and>
   register_api_tool_from_config ascii_lower no_text no_text Map.empty
     (Inr (JObject [(''name'', JString ''Felines''),
                    (''url'', JString ''https://catfact.ninja/fact''),
                    (''type'', JString ''Cat_Fact'')]))
     = (''Successfully registered 'Felines' API tool'', [''cat_fact'' \<mapsto> get_cat_fact])"
proof -
  let ?items = "[(''name'', JString ''Felines''), (''url'', JString ''https://catfact.ninja/fact''),
                 (''type'', JString ''Cat_Fact'')]"
  have 1: "map_of ?items ''name'' = Some (JString ''Felines'')"
    by simp
  have 2: "map_of ?items ''url'' = Some (JString ''https://catfact.ninja/fact'')"
    by simp
  show ?thesis
    using 1 2 validated_descriptor_registration [OF 1 2, of ascii_lower no_text no_text Map.empty]
    by (simp add: ascii_lower_mixed)
qed

text \<open>
  The same theorem at a descriptor whose type is the number 7: the registry stays empty
  and the message is that of the \<^verbatim>\<open>AttributeError\<close>.
\<close>

lemma number_type_is_rejected:
  "register_api_tool_from_config ascii_lower no_text no_text Map.empty
     (Inr (JObject [(''name'', JString ''Felines''),
                    (''url'', JString ''https://catfact.ninja/fact''),
                    (''type'', JNumber ''7'')]))
     = (''Error registering API tool: '', Map.empty)"
  by (simp add: register_api_tool_from_config_def try_block_def no_text_def)

text \<open>
  Claim C10 as stated fails: the type \<^verbatim>\<open>CAT_FACT\<close> is another string than \<^verbatim>\<open>cat_fact\<close>,
  and the registration changes the registry.
\<close>

theorem capitals_type_is_registered:
  "json_get capitals_descriptor ''type'' (JString []) = Inr (JString ''CAT_FACT'') \<and>
   ''CAT_FACT'' \<noteq> ''cat_fact'' \<and>
   snd (register_api_tool_from_config ascii_lower no_text no_text Map.empty
          (Inr capitals_descriptor)) ''cat_fact'' = Some get_cat_fact"
  by (simp add: register_api_tool_from_config_def try_block_def capitals_descriptor_def
      register_cat_fact_tool_def ascii_lower_capitals)

end
